theory Spec2Isabelle
  imports Complex_Main "HOL-Library.AList"
begin

section \<open>Data model (app/models.py)\<close>

text \<open>
  Conventions of the embedding.
  \<^item> Floating-point results are not evaluated. A value of type \<open>pynum\<close> is the
    expression of the Python operations that produce a number: a literal, or \<open>+\<close>, \<open>-\<close>,
    \<open>*\<close>, \<open>/\<close>, \<open>**\<close>, \<open>abs\<close>, \<open>round\<close> or \<open>int\<close> applied to such expressions, in the
    order in which the code applies them. What binary64 arithmetic makes of the
    expression is left open, so no equation or bound on the value of a fare, a
    distance, a rating or a surge multiplier is stated here, and no statement relies on
    two different expressions denoting different numbers. Integer draws and string
    formatting are computed exactly.
  \<^item> A \<open>datetime\<close> is the number of microseconds since the start of the calendar, so
    that \<open>\<le>\<close> is the order of time and \<open>.hour\<close> is computed from it.
  \<^item> Every reading of the clock (\<open>datetime.now()\<close>) and every draw of the random
    source (\<open>random.*\<close>, \<open>uuid.uuid4()\<close>) is an explicit argument of the function that
    makes it.
  \<^item> \<open>raise ValueError(msg)\<close> is the result \<open>Inl (ValueError msg)\<close>; every operation on
    the service returns its result together with the service afterwards.
  \<^item> The dictionary \<open>self.rides\<close> is an association list in insertion order; storing under
    a key that is present replaces the value in place, as a Python dict does.
\<close>

type_synonym datetime = nat

definition hour :: "datetime \<Rightarrow> nat" where
  "hour t = (t div 3600000000) mod 24"

datatype pynum =
    IntLit int
  | FloatLit real
  | PyAdd pynum pynum
  | PySub pynum pynum
  | PyMul pynum pynum
  | PyDiv pynum pynum
  | PyPow pynum pynum
  | PyAbs pynum
  | PyRound pynum nat
  | PyInt pynum

text \<open>\<open>IntLit i\<close> is the Python integer \<open>i\<close>; \<open>FloatLit x\<close> is the float that Python
  reads from the decimal \<open>x\<close> (a literal of the source such as \<open>1.3\<close>, a coordinate of a
  request, a value returned by \<open>random()\<close>); \<open>PyRound e n\<close> is \<open>round(e, n)\<close> and
  \<open>PyInt e\<close> is \<open>int(e)\<close>.\<close>

datatype RideStatus = SEARCHING | ACCEPTED | ARRIVING | IN_PROGRESS | COMPLETED | CANCELLED

datatype CabType = MINI | SEDAN | SUV | LUXURY

text \<open>The dictionary that is the value of a \<open>CabType\<close> member; the keys \<open>name\<close> and
  \<open>base_fare\<close> carry a prefix because \<open>Driver\<close> and \<open>Fare\<close> have fields of those names.\<close>

record cab_rates =
  cab_name :: string
  cab_base_fare :: pynum
  per_km :: pynum
  per_min :: pynum
  capacity :: int

fun cab_value :: "CabType \<Rightarrow> cab_rates" where
  "cab_value MINI =
     \<lparr>cab_name = ''Mini'', cab_base_fare = IntLit 50, per_km = IntLit 12, per_min = IntLit 2,
      capacity = 4\<rparr>"
| "cab_value SEDAN =
     \<lparr>cab_name = ''Sedan'', cab_base_fare = IntLit 80, per_km = IntLit 15,
      per_min = FloatLit (5 / 2), capacity = 4\<rparr>"
| "cab_value SUV =
     \<lparr>cab_name = ''SUV'', cab_base_fare = IntLit 120, per_km = IntLit 20, per_min = IntLit 3,
      capacity = 6\<rparr>"
| "cab_value LUXURY =
     \<lparr>cab_name = ''Luxury'', cab_base_fare = IntLit 200, per_km = IntLit 30,
      per_min = IntLit 5, capacity = 4\<rparr>"

record Location =
  latitude :: pynum
  longitude :: pynum
  address :: string

definition distance_to :: "Location \<Rightarrow> Location \<Rightarrow> pynum" where
  "distance_to self other =
     (let lat_diff = PyAbs (PySub (latitude self) (latitude other));
          lng_diff = PyAbs (PySub (longitude self) (longitude other))
      in PyMul
           (PyPow (PyAdd (PyPow lat_diff (IntLit 2)) (PyPow lng_diff (IntLit 2)))
              (FloatLit (1 / 2)))
           (IntLit 111))"

subsection \<open>The random source and the built-ins the code calls\<close>

text \<open>\<open>random.uniform(a, b)\<close> is \<open>a + (b - a) * random()\<close>, the argument \<open>u\<close> being the value
  of \<open>random()\<close>. \<open>random.randint(a, b)\<close> is \<open>a + randbelow(b - a + 1)\<close>
  and \<open>random.choice(seq)\<close> is \<open>seq[randbelow(len(seq))]\<close>, the argument \<open>n\<close> being the raw
  output that \<open>randbelow k\<close> reduces below \<open>k\<close>.\<close>

definition uniform :: "pynum \<Rightarrow> pynum \<Rightarrow> pynum \<Rightarrow> pynum" where
  "uniform a b u = PyAdd a (PyMul (PySub b a) u)"

definition randint :: "int \<Rightarrow> int \<Rightarrow> nat \<Rightarrow> int" where
  "randint a b n = a + int n mod (b - a + 1)"

definition choice :: "'a list \<Rightarrow> nat \<Rightarrow> 'a" where
  "choice seq n = seq ! (n mod length seq)"

definition upper_char :: "char \<Rightarrow> char" where
  "upper_char c =
     (let n = (of_char c :: nat) in if 97 \<le> n \<and> n \<le> 122 then char_of (n - 32) else c)"

definition upper :: "string \<Rightarrow> string" where
  "upper s = map upper_char s"

definition digit_char :: "nat \<Rightarrow> char" where
  "digit_char d = char_of (48 + d)"

fun str_nat :: "nat \<Rightarrow> string" where
  "str_nat n = (if n < 10 then [digit_char n] else str_nat (n div 10) @ [digit_char (n mod 10)])"

definition str_int :: "int \<Rightarrow> string" where
  "str_int i = (if i < 0 then CHR ''-'' # str_nat (nat (- i)) else str_nat (nat i))"

subsection \<open>Driver\<close>

record Driver =
  driver_id :: string
  name :: string
  phone :: string
  rating :: pynum
  total_trips :: int
  vehicle_number :: string
  vehicle_model :: string
  vehicle_color :: string
  current_location :: Location

text \<open>The draws of \<open>Driver.generate_random\<close>, in the order the source makes them.\<close>

record driver_draws =
  first_name_n :: nat
  last_name_n :: nat
  vehicle_n :: nat
  lat_u :: pynum
  lng_u :: pynum
  id_uuid :: string
  phone_n :: nat
  rating_u :: pynum
  trips_n :: nat
  plate_n1 :: nat
  plate_letter_n :: nat
  plate_n2 :: nat

definition first_names :: "string list" where
  "first_names = [''Rajesh'', ''Amit'', ''Suresh'', ''Vijay'', ''Anil'', ''Rahul'', ''Sanjay'', ''Manoj'']"

definition last_names :: "string list" where
  "last_names = [''Kumar'', ''Sharma'', ''Singh'', ''Patel'', ''Reddy'', ''Verma'', ''Gupta'', ''Joshi'']"

definition vehicles :: "(string \<times> string) list" where
  "vehicles = [(''Swift'', ''White''), (''Etios'', ''Silver''), (''Dzire'', ''Blue''),
               (''Innova'', ''Grey''), (''XUV'', ''Black''), (''Scorpio'', ''Red'')]"

definition generate_random :: "Location \<Rightarrow> driver_draws \<Rightarrow> Driver" where
  "generate_random location g =
     (let nm = choice first_names (first_name_n g) @ '' '' @ choice last_names (last_name_n g);
          vehicle = choice vehicles (vehicle_n g);
          nearby_location =
            \<lparr>latitude =
               PyAdd (latitude location)
                 (uniform (FloatLit (- (1 / 100))) (FloatLit (1 / 100)) (lat_u g)),
             longitude =
               PyAdd (longitude location)
                 (uniform (FloatLit (- (1 / 100))) (FloatLit (1 / 100)) (lng_u g)),
             address = ''Driver location''\<rparr>
      in \<lparr>driver_id = take 8 (id_uuid g),
          name = nm,
          phone = ''+91-'' @ str_int (randint 7000000000 9999999999 (phone_n g)),
          rating = PyRound (uniform (FloatLit 4) (FloatLit 5) (rating_u g)) 1,
          total_trips = randint 100 5000 (trips_n g),
          vehicle_number =
            ''KA'' @ str_int (randint 10 99 (plate_n1 g))
              @ choice [''A'', ''B'', ''C''] (plate_letter_n g)
              @ str_int (randint 1000 9999 (plate_n2 g)),
          vehicle_model = fst vehicle,
          vehicle_color = snd vehicle,
          current_location = nearby_location\<rparr>)"

subsection \<open>Fare and Ride\<close>

record Fare =
  base_fare :: pynum
  distance_fare :: pynum
  time_fare :: pynum
  surge_multiplier :: pynum
  total :: pynum

definition calculate_total :: "Fare \<Rightarrow> Fare" where
  "calculate_total self =
     (let subtotal = PyAdd (PyAdd (base_fare self) (distance_fare self)) (time_fare self)
      in self\<lparr>total := PyRound (PyMul subtotal (surge_multiplier self)) 2\<rparr>)"

record Ride =
  ride_id :: string
  cab_type :: CabType
  pickup :: Location
  dropoff :: Location
  status :: RideStatus
  driver :: "Driver option"
  fare :: "Fare option"
  created_at :: datetime
  accepted_at :: "datetime option"
  started_at :: "datetime option"
  completed_at :: "datetime option"
  eta_minutes :: int
  distance_km :: pynum
  duration_minutes :: pynum

section \<open>The booking service (app/services.py)\<close>

datatype error = ValueError string

record CabBookingService =
  rides :: "(string \<times> Ride) list"
  surge_areas :: "(string \<times> pynum) list"

definition init_service :: CabBookingService where
  "init_service = \<lparr>rides = [], surge_areas = []\<rparr>"

text \<open>\<open>self.rides.get(ride_id)\<close>\<close>

definition rides_get :: "CabBookingService \<Rightarrow> string \<Rightarrow> Ride option" where
  "rides_get s rid = map_of (rides s) rid"

definition get_surge_multiplier :: "Location \<Rightarrow> datetime \<Rightarrow> pynum \<Rightarrow> pynum" where
  "get_surge_multiplier location now u =
     (let h = hour now
      in if (8 \<le> h \<and> h \<le> 10) \<or> (17 \<le> h \<and> h \<le> 20)
         then PyRound (uniform (FloatLit (12 / 10)) (FloatLit 2) u) 1
         else PyRound (uniform (FloatLit 1) (FloatLit (13 / 10)) u) 1)"

definition get_fare_estimate ::
  "Location \<Rightarrow> Location \<Rightarrow> CabType \<Rightarrow> datetime \<Rightarrow> pynum \<Rightarrow> Fare" where
  "get_fare_estimate pickup_loc dropoff_loc ct now u =
     (let distance = distance_to pickup_loc dropoff_loc;
          duration = PyMul (PyDiv distance (IntLit 30)) (IntLit 60);
          rates = cab_value ct
      in calculate_total
           \<lparr>base_fare = cab_base_fare rates,
            distance_fare = PyMul distance (per_km rates),
            time_fare = PyMul duration (per_min rates),
            surge_multiplier = get_surge_multiplier pickup_loc now u,
            total = FloatLit 0\<rparr>)"

text \<open>\<open>book_ride\<close>: \<open>uid\<close> is \<open>str(uuid.uuid4())\<close>, \<open>t_surge\<close> the clock read by the surge
  policy, \<open>u\<close> its draw, \<open>t_created\<close> the clock read by the default of \<open>created_at\<close>.\<close>

definition book_ride ::
  "CabBookingService \<Rightarrow> Location \<Rightarrow> Location \<Rightarrow> CabType \<Rightarrow> string \<Rightarrow> datetime \<Rightarrow> pynum
     \<Rightarrow> datetime \<Rightarrow> Ride \<times> CabBookingService" where
  "book_ride s pickup_loc dropoff_loc ct uid t_surge u t_created =
     (let rid = upper (take 8 uid);
          distance = distance_to pickup_loc dropoff_loc;
          duration = PyInt (PyMul (PyDiv distance (IntLit 30)) (IntLit 60));
          ride =
            \<lparr>ride_id = rid, cab_type = ct, pickup = pickup_loc, dropoff = dropoff_loc,
             status = SEARCHING, driver = None,
             fare = Some (get_fare_estimate pickup_loc dropoff_loc ct t_surge u),
             created_at = t_created, accepted_at = None, started_at = None,
             completed_at = None, eta_minutes = 0,
             distance_km = PyRound distance 2, duration_minutes = duration\<rparr>
      in (ride, s\<lparr>rides := AList.update rid ride (rides s)\<rparr>))"

definition assign_driver ::
  "CabBookingService \<Rightarrow> string \<Rightarrow> driver_draws \<Rightarrow> datetime \<Rightarrow> nat
     \<Rightarrow> (error + Driver) \<times> CabBookingService" where
  "assign_driver s rid g now eta_n =
     (case rides_get s rid of
        None \<Rightarrow> (Inl (ValueError ''Ride not found''), s)
      | Some ride \<Rightarrow>
          (let d = generate_random (pickup ride) g;
               ride1 = ride\<lparr>driver := Some d\<rparr>;
               ride2 = ride1\<lparr>status := ACCEPTED\<rparr>;
               ride3 = ride2\<lparr>accepted_at := Some now\<rparr>;
               ride4 = ride3\<lparr>eta_minutes := randint 3 10 eta_n\<rparr>
           in (Inr d, s\<lparr>rides := AList.update rid ride4 (rides s)\<rparr>)))"

definition get_ride :: "CabBookingService \<Rightarrow> string \<Rightarrow> error + Ride" where
  "get_ride s rid =
     (case rides_get s rid of
        None \<Rightarrow> Inl (ValueError ''Ride not found'')
      | Some ride \<Rightarrow> Inr ride)"

definition update_ride_status ::
  "CabBookingService \<Rightarrow> string \<Rightarrow> RideStatus \<Rightarrow> datetime
     \<Rightarrow> (error + Ride) \<times> CabBookingService" where
  "update_ride_status s rid new_status now =
     (case rides_get s rid of
        None \<Rightarrow> (Inl (ValueError ''Ride not found''), s)
      | Some ride \<Rightarrow>
          (let ride1 = ride\<lparr>status := new_status\<rparr>;
               ride2 = (if new_status = IN_PROGRESS then ride1\<lparr>started_at := Some now\<rparr>
                        else if new_status = COMPLETED then ride1\<lparr>completed_at := Some now\<rparr>
                        else ride1)
           in (Inr ride2, s\<lparr>rides := AList.update rid ride2 (rides s)\<rparr>)))"

text \<open>The dictionary returned by \<open>cancel_ride\<close>; its keys \<open>ride_id\<close>, \<open>status\<close> and \<open>reason\<close>
  carry the prefix \<open>res\<close>.\<close>

record cancel_result =
  res_ride_id :: string
  res_status :: string
  res_reason :: string
  cancellation_fee :: int

definition cancel_ride ::
  "CabBookingService \<Rightarrow> string \<Rightarrow> string \<Rightarrow> (error + cancel_result) \<times> CabBookingService" where
  "cancel_ride s rid reason =
     (case rides_get s rid of
        None \<Rightarrow> (Inl (ValueError ''Ride not found''), s)
      | Some ride \<Rightarrow>
          (let ride1 = ride\<lparr>status := CANCELLED\<rparr>;
               fee = (if status ride1 \<in> set [ACCEPTED, ARRIVING] then 50 else 0)
           in (Inr \<lparr>res_ride_id = rid, res_status = ''cancelled'', res_reason = reason,
                     cancellation_fee = fee\<rparr>,
               s\<lparr>rides := AList.update rid ride1 (rides s)\<rparr>)))"

definition get_ride_history :: "CabBookingService \<Rightarrow> Ride list" where
  "get_ride_history s = filter (\<lambda>ride. status ride = COMPLETED) (map snd (rides s))"

section \<open>The scripted lifecycle (app.py, \<open>simulate_ride\<close>)\<close>

text \<open>\<open>CabBookingSystem\<close> in app.py has the same operations on the same state;
  \<open>simulate_ride\<close> drives one ride through them: driver assignment, then the statuses
  arriving, in progress and completed. The arguments \<open>t1\<close>, \<open>t2\<close>, \<open>t3\<close> are the clock
  readings of the three calls that record a timestamp; the calls to \<open>time.sleep\<close> and
  \<open>print\<close> have no effect on the state.\<close>

definition simulate_ride ::
  "CabBookingService \<Rightarrow> string \<Rightarrow> driver_draws \<Rightarrow> nat \<Rightarrow> datetime \<Rightarrow> datetime \<Rightarrow> datetime
     \<Rightarrow> (error + unit) \<times> CabBookingService" where
  "simulate_ride s rid g eta_n t1 t2 t3 =
     (case rides_get s rid of
        None \<Rightarrow> (Inl (ValueError ''Ride not found''), s)
      | Some ride \<Rightarrow>
          (let s1 = snd (assign_driver s rid g t1 eta_n);
               s2 = snd (update_ride_status s1 rid ARRIVING t1);
               s3 = snd (update_ride_status s2 rid IN_PROGRESS t2);
               s4 = snd (update_ride_status s3 rid COMPLETED t3)
           in (Inr (), s4)))"

section \<open>Sequences of operations\<close>

text \<open>One value per call of the service, with the arguments and the readings of the
  clock and of the random source that the call consumes.\<close>

datatype op =
    BookRide Location Location CabType string datetime pynum datetime
  | AssignDriver string driver_draws datetime nat
  | GetRide string
  | UpdateRideStatus string RideStatus datetime
  | CancelRide string string
  | GetRideHistory

fun step :: "CabBookingService \<Rightarrow> op \<Rightarrow> CabBookingService" where
  "step s (BookRide p q ct uid t_surge u t_created) = snd (book_ride s p q ct uid t_surge u t_created)"
| "step s (AssignDriver rid g now eta_n) = snd (assign_driver s rid g now eta_n)"
| "step s (GetRide rid) = s"
| "step s (UpdateRideStatus rid st now) = snd (update_ride_status s rid st now)"
| "step s (CancelRide rid reason) = snd (cancel_ride s rid reason)"
| "step s GetRideHistory = s"

fun run :: "CabBookingService \<Rightarrow> op list \<Rightarrow> CabBookingService" where
  "run s [] = s"
| "run s (x # xs) = run (step s x) xs"

text \<open>The identifier under which an operation stores a new ride, if it books one.\<close>

fun booked_id :: "op \<Rightarrow> string option" where
  "booked_id (BookRide p q ct uid t_surge u t_created) = Some (upper (take 8 uid))"
| "booked_id _ = None"

definition keys :: "CabBookingService \<Rightarrow> string set" where
  "keys s = fst ` set (rides s)"

section \<open>Concrete inputs (the locations of \<open>main\<close> in app.py)\<close>

definition demo_pickup :: Location where
  "demo_pickup = \<lparr>latitude = FloatLit (129716 / 10000), longitude = FloatLit (775946 / 10000),
                   address = ''MG Road, Bangalore''\<rparr>"

definition demo_dropoff :: Location where
  "demo_dropoff = \<lparr>latitude = FloatLit (129352 / 10000), longitude = FloatLit (776245 / 10000),
                    address = ''Koramangala, Bangalore''\<rparr>"

definition demo_uuid :: string where
  "demo_uuid = ''3f2a9c1e-5b7d-4e8a-9c0f-1a2b3c4d5e6f''"

definition demo_uuid_same_prefix :: string where
  "demo_uuid_same_prefix = ''3f2a9c1e-aaaa-4bbb-8ccc-dddddddddddd''"

definition demo_uuid_other :: string where
  "demo_uuid_other = ''7b00c0de-1111-4222-8333-444444444444''"

definition demo_draws :: driver_draws where
  "demo_draws = \<lparr>first_name_n = 1, last_name_n = 2, vehicle_n = 3, lat_u = FloatLit (1 / 4),
                  lng_u = FloatLit (3 / 4), id_uuid = ''0b1c2d3e-0000-4000-8000-000000000000'',
                  phone_n = 123456789, rating_u = FloatLit (1 / 2), trips_n = 42, plate_n1 = 7,
                  plate_letter_n = 1, plate_n2 = 321\<rparr>"

definition demo_draws_again :: driver_draws where
  "demo_draws_again = demo_draws\<lparr>id_uuid := ''9f8e7d6c-0000-4000-8000-000000000000''\<rparr>"

text \<open>A ride booked at nine in the morning: the ride that \<open>book_ride\<close> returns and the
  service afterwards. Then the same service after a driver was assigned, after
  \<open>simulate_ride\<close> ran the whole lifecycle, and after a second ride was booked in the
  evening.\<close>

definition demo_ride :: Ride where
  "demo_ride =
     fst (book_ride init_service demo_pickup demo_dropoff SEDAN demo_uuid
            32400000000 (FloatLit (1 / 2)) 32400000001)"

definition demo_booked :: CabBookingService where
  "demo_booked =
     snd (book_ride init_service demo_pickup demo_dropoff SEDAN demo_uuid
            32400000000 (FloatLit (1 / 2)) 32400000001)"

definition demo_accepted :: CabBookingService where
  "demo_accepted = snd (assign_driver demo_booked ''3F2A9C1E'' demo_draws 32400000100 4)"

definition demo_completed :: CabBookingService where
  "demo_completed =
     snd (simulate_ride demo_booked ''3F2A9C1E'' demo_draws 4
            32400000100 32400000200 32400000300)"

text \<open>The ride of \<open>demo_completed\<close>, written out.\<close>

definition demo_completed_ride :: Ride where
  "demo_completed_ride =
     demo_ride\<lparr>driver := Some (generate_random demo_pickup demo_draws),
                status := COMPLETED, accepted_at := Some 32400000100,
                started_at := Some 32400000200, completed_at := Some 32400000300,
                eta_minutes := randint 3 10 4\<rparr>"

definition demo_second_ride :: Ride where
  "demo_second_ride =
     fst (book_ride demo_completed demo_dropoff demo_pickup MINI demo_uuid_other
            64800000000 (FloatLit (1 / 4)) 64800000001)"

definition demo_two :: CabBookingService where
  "demo_two =
     snd (book_ride demo_completed demo_dropoff demo_pickup MINI demo_uuid_other
            64800000000 (FloatLit (1 / 4)) 64800000001)"

section \<open>Auxiliary facts\<close>

subsection \<open>The dictionary of rides\<close>

lemma rides_get_update:
  "rides_get (s\<lparr>rides := AList.update k v (rides s)\<rparr>) k' =
     (if k' = k then Some v else rides_get s k')"
  by (simp add: rides_get_def update_conv')

lemma keys_update: "keys (s\<lparr>rides := AList.update k v (rides s)\<rparr>) = insert k (keys s)"
  by (simp add: keys_def dom_update)

lemma rides_get_None_iff: "rides_get s rid = None \<longleftrightarrow> rid \<notin> keys s"
  by (simp add: rides_get_def keys_def map_of_eq_None_iff)

lemma rides_get_Some_keys: "rides_get s rid = Some r \<Longrightarrow> rid \<in> keys s"
  using rides_get_None_iff [of s rid] by auto

lemma update_present_keys: "map_of al k = Some v0 \<Longrightarrow> map fst (AList.update k v al) = map fst al"
  by (induction al) (auto split: if_splits)

lemma update_absent: "map_of al k = None \<Longrightarrow> AList.update k v al = al @ [(k, v)]"
  by (induction al) (auto split: if_splits)

subsection \<open>Each operation on a stored ride and on an unknown identifier\<close>

lemma assign_driver_stored:
  "rides_get s rid = Some r \<Longrightarrow>
   assign_driver s rid g now n =
     (Inr (generate_random (pickup r) g),
      s\<lparr>rides := AList.update rid
           (r\<lparr>driver := Some (generate_random (pickup r) g), status := ACCEPTED,
              accepted_at := Some now, eta_minutes := randint 3 10 n\<rparr>) (rides s)\<rparr>)"
  by (simp add: assign_driver_def Let_def)

lemma update_ride_status_stored:
  "rides_get s rid = Some r \<Longrightarrow>
   update_ride_status s rid st now =
     (let r' = (if st = IN_PROGRESS then r\<lparr>status := st, started_at := Some now\<rparr>
                else if st = COMPLETED then r\<lparr>status := st, completed_at := Some now\<rparr>
                else r\<lparr>status := st\<rparr>)
      in (Inr r', s\<lparr>rides := AList.update rid r' (rides s)\<rparr>))"
  by (simp add: update_ride_status_def Let_def)

lemma cancel_ride_stored:
  "rides_get s rid = Some r \<Longrightarrow>
   cancel_ride s rid reason =
     (Inr \<lparr>res_ride_id = rid, res_status = ''cancelled'', res_reason = reason,
           cancellation_fee = 0\<rparr>,
      s\<lparr>rides := AList.update rid (r\<lparr>status := CANCELLED\<rparr>) (rides s)\<rparr>)"
  by (simp add: cancel_ride_def Let_def)

lemma assign_driver_unknown:
  "rides_get s rid = None \<Longrightarrow> assign_driver s rid g now n = (Inl (ValueError ''Ride not found''), s)"
  by (simp add: assign_driver_def)

lemma update_ride_status_unknown:
  "rides_get s rid = None \<Longrightarrow>
   update_ride_status s rid st now = (Inl (ValueError ''Ride not found''), s)"
  by (simp add: update_ride_status_def)

lemma cancel_ride_unknown:
  "rides_get s rid = None \<Longrightarrow> cancel_ride s rid reason = (Inl (ValueError ''Ride not found''), s)"
  by (simp add: cancel_ride_def)

lemma assign_driver_fails_same: "fst (assign_driver s rid g now n) = Inl e \<Longrightarrow> snd (assign_driver s rid g now n) = s"
  by (cases "rides_get s rid") (simp_all add: assign_driver_unknown assign_driver_stored)

lemma update_ride_status_fails_same:
  "fst (update_ride_status s rid st now) = Inl e \<Longrightarrow> snd (update_ride_status s rid st now) = s"
  by (cases "rides_get s rid")
     (simp_all add: update_ride_status_unknown update_ride_status_stored Let_def)

lemma cancel_ride_fails_same:
  "fst (cancel_ride s rid reason) = Inl e \<Longrightarrow> snd (cancel_ride s rid reason) = s"
  by (cases "rides_get s rid") (simp_all add: cancel_ride_unknown cancel_ride_stored)


subsection \<open>Association lists with distinct keys\<close>

lemma values_iff_lookup:
  "distinct (map fst al) \<Longrightarrow> v \<in> set (map snd al) \<longleftrightarrow> (\<exists>k. map_of al k = Some v)"
proof
  assume "distinct (map fst al)" and "v \<in> set (map snd al)"
  then obtain k where "(k, v) \<in> set al" by auto
  with \<open>distinct (map fst al)\<close> have "map_of al k = Some v" by simp
  then show "\<exists>k. map_of al k = Some v" ..
next
  assume "\<exists>k. map_of al k = Some v"
  then obtain k where "map_of al k = Some v" ..
  then have "(k, v) \<in> set al" by (rule map_of_SomeD)
  then show "v \<in> set (map snd al)" by force
qed

lemma values_by_keys_gen:
  "distinct (map fst al) \<Longrightarrow> (\<And>k. k \<in> set (map fst al) \<Longrightarrow> h k = the (map_of al k)) \<Longrightarrow>
   filter P (map snd al) = map h (filter (\<lambda>k. P (h k)) (map fst al))"
proof (induction al)
  case Nil
  then show ?case by simp
next
  case (Cons kv al)
  obtain k v where kv: "kv = (k, v)" by (cases kv)
  from Cons.prems(1) kv have fresh: "k \<notin> fst ` set al" and dist: "distinct (map fst al)"
    by simp_all
  have hk: "h k = v"
    using Cons.prems(2) [of k] kv by simp
  have tail: "h k' = the (map_of al k')" if "k' \<in> set (map fst al)" for k'
  proof -
    from that fresh have "k' \<noteq> k" by auto
    with Cons.prems(2) [of k'] that kv show ?thesis by simp
  qed
  have "filter P (map snd al) = map h (filter (\<lambda>k. P (h k)) (map fst al))"
    using dist tail by (rule Cons.IH)
  then show ?case by (simp add: kv hk)
qed

lemma values_by_keys:
  "distinct (map fst al) \<Longrightarrow>
   filter P (map snd al) =
     map (\<lambda>k. the (map_of al k)) (filter (\<lambda>k. P (the (map_of al k))) (map fst al))"
  by (rule values_by_keys_gen) simp_all

subsection \<open>Steps and runs\<close>

lemma book_ride_state:
  "snd (book_ride s p q ct uid ts u tc) =
     s\<lparr>rides := AList.update (upper (take 8 uid)) (fst (book_ride s p q ct uid ts u tc)) (rides s)\<rparr>"
  by (simp add: book_ride_def Let_def)

lemma book_ride_id: "ride_id (fst (book_ride s p q ct uid ts u tc)) = upper (take 8 uid)"
  by (simp add: book_ride_def Let_def)

lemma step_shape:
  "(booked_id x = None \<and> step s x = s)
   \<or> (\<exists>k v. step s x = s\<lparr>rides := AList.update k v (rides s)\<rparr>
              \<and> (booked_id x = Some k \<or> booked_id x = None \<and> rides_get s k \<noteq> None))"
proof (cases x)
  case (BookRide p q ct uid ts u tc)
  then show ?thesis using book_ride_state [of s p q ct uid ts u tc] by auto
next
  case (AssignDriver rid g now n)
  then show ?thesis
    by (cases "rides_get s rid") (auto simp: assign_driver_unknown assign_driver_stored)
next
  case (UpdateRideStatus rid st now)
  then show ?thesis
    by (cases "rides_get s rid")
       (auto simp: update_ride_status_unknown update_ride_status_stored Let_def)
next
  case (CancelRide rid reason)
  then show ?thesis
    by (cases "rides_get s rid") (auto simp: cancel_ride_unknown cancel_ride_stored)
qed simp_all

lemma keys_step: "keys (step s x) = (case booked_id x of None \<Rightarrow> keys s | Some k \<Rightarrow> insert k (keys s))"
  using step_shape [where s = s and x = x]
  by (auto simp: keys_update dest: rides_get_Some_keys split: option.splits)

lemma key_order_step: "booked_id x = None \<Longrightarrow> map fst (rides (step s x)) = map fst (rides s)"
  using step_shape [where s = s and x = x]
  by (auto simp: rides_get_def dest: update_present_keys)

lemma keys_run: "keys s \<subseteq> keys (run s xs)"
proof (induction xs arbitrary: s)
  case Nil
  show ?case by simp
next
  case (Cons x xs)
  have "keys s \<subseteq> keys (step s x)"
    by (auto simp: keys_step split: option.splits)
  also have "\<dots> \<subseteq> keys (run (step s x) xs)" by (rule Cons.IH)
  finally show ?case by simp
qed

lemma distinct_step: "distinct (map fst (rides s)) \<Longrightarrow> distinct (map fst (rides (step s x)))"
  using step_shape [where s = s and x = x] by (auto simp: distinct_update)

lemma distinct_run: "distinct (map fst (rides s)) \<Longrightarrow> distinct (map fst (rides (run s xs)))"
  by (induction xs arbitrary: s) (simp_all add: distinct_step)

lemma distinct_reachable: "distinct (map fst (rides (run init_service xs)))"
  by (rule distinct_run) (simp add: init_service_def)

subsection \<open>Draws\<close>

lemma randint_bounds: "a \<le> b \<Longrightarrow> a \<le> randint a b n \<and> randint a b n \<le> b"
proof -
  assume "a \<le> b"
  then have pos: "0 < b - a + 1" by simp
  define m where "m = int n mod (b - a + 1)"
  have "0 \<le> m"
    unfolding m_def using pos by (rule pos_mod_sign)
  moreover have "m < b - a + 1"
    unfolding m_def using pos by (rule pos_mod_bound)
  moreover have "randint a b n = a + m"
    by (simp add: randint_def m_def)
  ultimately show ?thesis by simp
qed

lemma driver_id_generate_random: "driver_id (generate_random loc g) = take 8 (id_uuid g)"
  by (simp add: generate_random_def Let_def)

subsection \<open>The scripted lifecycle\<close>

lemma simulate_ride_stored:
  "rides_get s rid = Some r \<Longrightarrow>
   simulate_ride s rid g n t1 t2 t3 =
     (Inr (),
      s\<lparr>rides := AList.update rid
           (r\<lparr>driver := Some (generate_random (pickup r) g), status := COMPLETED,
              accepted_at := Some t1, started_at := Some t2, completed_at := Some t3,
              eta_minutes := randint 3 10 n\<rparr>) (rides s)\<rparr>)"
proof -
  assume stored: "rides_get s rid = Some r"
  let ?r1 = "r\<lparr>driver := Some (generate_random (pickup r) g), status := ACCEPTED,
               accepted_at := Some t1, eta_minutes := randint 3 10 n\<rparr>"
  let ?s1 = "s\<lparr>rides := AList.update rid ?r1 (rides s)\<rparr>"
  let ?r2 = "?r1\<lparr>status := ARRIVING\<rparr>"
  let ?s2 = "s\<lparr>rides := AList.update rid ?r2 (rides s)\<rparr>"
  let ?r3 = "?r2\<lparr>status := IN_PROGRESS, started_at := Some t2\<rparr>"
  let ?s3 = "s\<lparr>rides := AList.update rid ?r3 (rides s)\<rparr>"
  let ?r4 = "?r3\<lparr>status := COMPLETED, completed_at := Some t3\<rparr>"
  let ?s4 = "s\<lparr>rides := AList.update rid ?r4 (rides s)\<rparr>"
  have a1: "snd (assign_driver s rid g t1 n) = ?s1"
    by (subst assign_driver_stored [OF stored]) simp
  have g1: "rides_get ?s1 rid = Some ?r1" by (simp add: rides_get_update)
  have a2: "snd (update_ride_status ?s1 rid ARRIVING t1) = ?s2"
    by (subst update_ride_status_stored [OF g1]) (simp add: Let_def)
  have g2: "rides_get ?s2 rid = Some ?r2" by (simp add: rides_get_update)
  have a3: "snd (update_ride_status ?s2 rid IN_PROGRESS t2) = ?s3"
    by (subst update_ride_status_stored [OF g2]) (simp add: Let_def)
  have g3: "rides_get ?s3 rid = Some ?r3" by (simp add: rides_get_update)
  have a4: "snd (update_ride_status ?s3 rid COMPLETED t3) = ?s4"
    by (subst update_ride_status_stored [OF g3]) (simp add: Let_def)
  have eq: "?r4 = r\<lparr>driver := Some (generate_random (pickup r) g), status := COMPLETED,
                      accepted_at := Some t1, started_at := Some t2, completed_at := Some t3,
                      eta_minutes := randint 3 10 n\<rparr>"
    by (cases r) simp
  show ?thesis
    unfolding simulate_ride_def Let_def a1 a2 a3 a4 eq
    by (simp add: stored)
qed

subsection \<open>The concrete inputs\<close>

lemma demo_rid: "upper (take 8 demo_uuid) = ''3F2A9C1E''"
  by code_simp

lemma demo_rid_same_prefix: "upper (take 8 demo_uuid_same_prefix) = ''3F2A9C1E''"
  by code_simp

lemma demo_rid_other: "upper (take 8 demo_uuid_other) = ''7B00C0DE''"
  by code_simp

lemma init_service_keys: "keys init_service = {}"
  by (simp add: keys_def init_service_def)

lemma demo_booked_rides: "rides demo_booked = [(''3F2A9C1E'', demo_ride)]"
  unfolding demo_booked_def book_ride_state demo_rid
  by (simp add: init_service_def demo_ride_def)

lemma demo_booked_get: "rides_get demo_booked ''3F2A9C1E'' = Some demo_ride"
  by (simp add: rides_get_def demo_booked_rides)

lemma demo_ride_fields:
  "status demo_ride = SEARCHING" "pickup demo_ride = demo_pickup"
  "created_at demo_ride = 32400000001" "accepted_at demo_ride = None"
  "started_at demo_ride = None" "completed_at demo_ride = None"
  "ride_id demo_ride = ''3F2A9C1E''"
  by (simp_all add: demo_ride_def book_ride_def Let_def demo_rid)

lemma demo_accepted_get:
  "rides_get demo_accepted ''3F2A9C1E'' =
     Some (demo_ride\<lparr>driver := Some (generate_random demo_pickup demo_draws),
                      status := ACCEPTED, accepted_at := Some 32400000100,
                      eta_minutes := randint 3 10 4\<rparr>)"
  unfolding demo_accepted_def
  by (simp add: assign_driver_stored [OF demo_booked_get] rides_get_update demo_ride_fields)

lemma demo_accepted_keys: "map fst (rides demo_accepted) = [''3F2A9C1E'']"
  unfolding demo_accepted_def
  by (simp add: assign_driver_stored [OF demo_booked_get] demo_booked_rides)

lemma demo_completed_rides: "rides demo_completed = [(''3F2A9C1E'', demo_completed_ride)]"
  unfolding demo_completed_def demo_completed_ride_def
  by (simp add: simulate_ride_stored [OF demo_booked_get] demo_booked_rides demo_ride_fields)

lemma demo_completed_get: "rides_get demo_completed ''3F2A9C1E'' = Some demo_completed_ride"
  by (simp add: rides_get_def demo_completed_rides)

lemma demo_completed_ride_fields:
  "status demo_completed_ride = COMPLETED" "created_at demo_completed_ride = 32400000001"
  "accepted_at demo_completed_ride = Some 32400000100"
  "started_at demo_completed_ride = Some 32400000200"
  "completed_at demo_completed_ride = Some 32400000300"
  by (simp_all add: demo_completed_ride_def demo_ride_fields)

lemma demo_second_ride_fields:
  "status demo_second_ride = SEARCHING" "ride_id demo_second_ride = ''7B00C0DE''"
  by (simp_all add: demo_second_ride_def book_ride_def Let_def demo_rid_other)

lemma demo_two_rides:
  "rides demo_two = [(''3F2A9C1E'', demo_completed_ride), (''7B00C0DE'', demo_second_ride)]"
  unfolding demo_two_def book_ride_state demo_rid_other
  by (simp add: demo_completed_rides demo_second_ride_def)

subsection \<open>What a step does to one stored ride\<close>

lemma step_ride_frame:
  assumes stored: "rides_get s rid = Some r" and nobook: "booked_id x \<noteq> Some rid"
  shows "\<exists>r'. rides_get (step s x) rid = Some r'
           \<and> ride_id r' = ride_id r \<and> created_at r' = created_at r
           \<and> distance_km r' = distance_km r \<and> duration_minutes r' = duration_minutes r
           \<and> (accepted_at r' \<noteq> accepted_at r \<longrightarrow>
                (\<exists>g now n. x = AssignDriver rid g now n \<and> accepted_at r' = Some now))
           \<and> (started_at r' \<noteq> started_at r \<longrightarrow>
                (\<exists>now. x = UpdateRideStatus rid IN_PROGRESS now \<and> started_at r' = Some now))
           \<and> (completed_at r' \<noteq> completed_at r \<longrightarrow>
                (\<exists>now. x = UpdateRideStatus rid COMPLETED now \<and> completed_at r' = Some now))"
proof (cases x)
  case (BookRide p q ct uid ts u tc)
  with nobook have "upper (take 8 uid) \<noteq> rid" by simp
  then show ?thesis
    using stored BookRide by (simp add: book_ride_state rides_get_update)
next
  case (AssignDriver rid0 g now n)
  show ?thesis
  proof (cases "rid0 = rid")
    case True
    then show ?thesis
      using AssignDriver by (simp add: assign_driver_stored [OF stored] rides_get_update)
  next
    case False
    then show ?thesis
      using AssignDriver stored
      by (cases "rides_get s rid0")
         (simp_all add: assign_driver_unknown assign_driver_stored rides_get_update)
  qed
next
  case (GetRide rid0)
  then show ?thesis using stored by simp
next
  case (UpdateRideStatus rid0 st now)
  show ?thesis
  proof (cases "rid0 = rid")
    case True
    then show ?thesis
      using UpdateRideStatus
      by (simp add: update_ride_status_stored [OF stored] rides_get_update Let_def)
  next
    case False
    then show ?thesis
      using UpdateRideStatus stored
      by (cases "rides_get s rid0")
         (simp_all add: update_ride_status_unknown update_ride_status_stored
            rides_get_update Let_def)
  qed
next
  case (CancelRide rid0 reason)
  show ?thesis
  proof (cases "rid0 = rid")
    case True
    then show ?thesis
      using CancelRide by (simp add: cancel_ride_stored [OF stored] rides_get_update)
  next
    case False
    then show ?thesis
      using CancelRide stored
      by (cases "rides_get s rid0")
         (simp_all add: cancel_ride_unknown cancel_ride_stored rides_get_update)
  qed
next
  case GetRideHistory
  then show ?thesis using stored by simp
qed

lemma run_ride_frame:
  "rides_get s rid = Some r \<Longrightarrow> \<forall>x\<in>set xs. booked_id x \<noteq> Some rid \<Longrightarrow>
   \<exists>r'. rides_get (run s xs) rid = Some r'
     \<and> ride_id r' = ride_id r \<and> created_at r' = created_at r
     \<and> distance_km r' = distance_km r \<and> duration_minutes r' = duration_minutes r"
proof (induction xs arbitrary: s r)
  case Nil
  then show ?case by simp
next
  case (Cons x xs)
  from Cons.prems have nb: "booked_id x \<noteq> Some rid" and rest: "\<forall>y\<in>set xs. booked_id y \<noteq> Some rid"
    by simp_all
  from step_ride_frame [OF Cons.prems(1) nb]
  obtain r1 where r1: "rides_get (step s x) rid = Some r1"
    and same: "ride_id r1 = ride_id r" "created_at r1 = created_at r"
      "distance_km r1 = distance_km r" "duration_minutes r1 = duration_minutes r"
    by blast
  from Cons.IH [OF r1 rest] show ?case
    by (simp add: same)
qed

lemma get_ride_after_run: "rid \<in> keys s \<Longrightarrow> \<exists>r. get_ride (run s xs) rid = Inr r"
proof -
  assume "rid \<in> keys s"
  then have "rid \<in> keys (run s xs)" using keys_run [of s xs] by auto
  then have "rides_get (run s xs) rid \<noteq> None" by (simp add: rides_get_None_iff)
  then show ?thesis by (auto simp: get_ride_def)
qed

section \<open>Cancellation\<close>

text \<open>
  C1. The claim: \<open>cancel_ride\<close> returns a fee of exactly 50 when the ride is ACCEPTED or
  ARRIVING at the moment of the call, and 0 when it is SEARCHING. The code overwrites the
  status with CANCELLED before it compares it with ACCEPTED and ARRIVING, so the comparison
  never holds: for the ride of \<open>demo_accepted\<close>, whose status is ACCEPTED when the call is
  made, the fee returned is 0, and it is 0 again when the ride is ARRIVING.
\<close>

theorem cancel_ride_fee_after_accept:
  "map_option status (rides_get demo_accepted ''3F2A9C1E'') = Some ACCEPTED
   \<and> fst (cancel_ride demo_accepted ''3F2A9C1E'' ''User cancelled'') =
       Inr \<lparr>res_ride_id = ''3F2A9C1E'', res_status = ''cancelled'',
            res_reason = ''User cancelled'', cancellation_fee = 0\<rparr>
   \<and> map_option status
        (rides_get (snd (update_ride_status demo_accepted ''3F2A9C1E'' ARRIVING 32400000150))
           ''3F2A9C1E'') = Some ARRIVING
   \<and> fst (cancel_ride (snd (update_ride_status demo_accepted ''3F2A9C1E'' ARRIVING 32400000150))
             ''3F2A9C1E'' ''User cancelled'') =
       Inr \<lparr>res_ride_id = ''3F2A9C1E'', res_status = ''cancelled'',
            res_reason = ''User cancelled'', cancellation_fee = 0\<rparr>"
proof -
  let ?arriving = "snd (update_ride_status demo_accepted ''3F2A9C1E'' ARRIVING 32400000150)"
  obtain r where r: "rides_get ?arriving ''3F2A9C1E'' = Some r" and st: "status r = ARRIVING"
    by (simp add: update_ride_status_stored [OF demo_accepted_get] rides_get_update Let_def)
  show ?thesis
    by (simp add: demo_accepted_get cancel_ride_stored [OF demo_accepted_get]
        cancel_ride_stored [OF r] r st)
qed

text \<open>
  C9. When \<open>cancel_ride\<close> is applied to a stored ride, the stored ride afterwards is the
  ride before with \<open>status\<close> set to CANCELLED: every other field is unchanged, every
  other ride and the rest of the service are unchanged, and the reason reaches only the
  returned dictionary (the service afterwards is the same whatever the reason).
\<close>

theorem cancel_ride_changes_only_status:
  assumes "rides_get s rid = Some r"
  shows "(\<exists>r'. rides_get (snd (cancel_ride s rid reason)) rid = Some r'
            \<and> r' = r\<lparr>status := CANCELLED\<rparr>
            \<and> status r' = CANCELLED
            \<and> ride_id r' = ride_id r \<and> cab_type r' = cab_type r
            \<and> pickup r' = pickup r \<and> dropoff r' = dropoff r
            \<and> driver r' = driver r \<and> fare r' = fare r
            \<and> created_at r' = created_at r \<and> accepted_at r' = accepted_at r
            \<and> started_at r' = started_at r \<and> completed_at r' = completed_at r
            \<and> eta_minutes r' = eta_minutes r \<and> distance_km r' = distance_km r
            \<and> duration_minutes r' = duration_minutes r)
       \<and> (\<forall>rid'. rid' \<noteq> rid \<longrightarrow>
             rides_get (snd (cancel_ride s rid reason)) rid' = rides_get s rid')
       \<and> map fst (rides (snd (cancel_ride s rid reason))) = map fst (rides s)
       \<and> surge_areas (snd (cancel_ride s rid reason)) = surge_areas s
       \<and> (\<exists>res. fst (cancel_ride s rid reason) = Inr res
             \<and> res_ride_id res = rid \<and> res_reason res = reason)
       \<and> snd (cancel_ride s rid reason) = snd (cancel_ride s rid reason')"
proof -
  have present: "map_of (rides s) rid = Some r"
    using assms by (simp add: rides_get_def)
  show ?thesis
    by (simp add: cancel_ride_stored [OF assms] rides_get_update
        update_present_keys [OF present])
qed

theorem cancel_ride_changes_only_status_witness:
  "rides_get demo_accepted ''3F2A9C1E'' \<noteq> None
   \<and> map_option status (rides_get (snd (cancel_ride demo_accepted ''3F2A9C1E'' ''late'')) ''3F2A9C1E'')
       = Some CANCELLED
   \<and> map_option accepted_at
       (rides_get (snd (cancel_ride demo_accepted ''3F2A9C1E'' ''late'')) ''3F2A9C1E'')
       = Some (Some 32400000100)
   \<and> map fst (rides (snd (cancel_ride demo_accepted ''3F2A9C1E'' ''late''))) = [''3F2A9C1E'']"
  using cancel_ride_changes_only_status [OF demo_accepted_get, of "''late''" "''late''"]
    demo_accepted_keys
  by (auto simp: demo_accepted_get)

section \<open>Unknown identifiers\<close>

text \<open>
  C8. For a ride identifier that is not a key of the registry, \<open>get_ride\<close>,
  \<open>assign_driver\<close>, \<open>update_ride_status\<close> and \<open>cancel_ride\<close> each fail with the error
  "Ride not found" (the code's not-found failure), and the service after the call is the
  service before it. More generally, whenever one of the three mutating operations fails,
  for any identifier, the service is unchanged.
\<close>

theorem unknown_ride_not_found:
  assumes "rid \<notin> keys s"
  shows "get_ride s rid = Inl (ValueError ''Ride not found'')
       \<and> assign_driver s rid g now n = (Inl (ValueError ''Ride not found''), s)
       \<and> update_ride_status s rid st now = (Inl (ValueError ''Ride not found''), s)
       \<and> cancel_ride s rid reason = (Inl (ValueError ''Ride not found''), s)
       \<and> (fst (assign_driver s rid' g now n) = Inl e1 \<longrightarrow>
            snd (assign_driver s rid' g now n) = s)
       \<and> (fst (update_ride_status s rid' st now) = Inl e2 \<longrightarrow>
            snd (update_ride_status s rid' st now) = s)
       \<and> (fst (cancel_ride s rid' reason) = Inl e3 \<longrightarrow>
            snd (cancel_ride s rid' reason) = s)"
proof -
  have absent: "rides_get s rid = None"
    using assms by (simp add: rides_get_None_iff)
  show ?thesis
    using absent assign_driver_unknown update_ride_status_unknown cancel_ride_unknown
      assign_driver_fails_same update_ride_status_fails_same cancel_ride_fails_same
    by (simp add: get_ride_def)
qed

theorem unknown_ride_not_found_witness:
  "''00000000'' \<notin> keys demo_accepted
   \<and> get_ride demo_accepted ''00000000'' = Inl (ValueError ''Ride not found'')
   \<and> assign_driver demo_accepted ''00000000'' demo_draws 5 6
       = (Inl (ValueError ''Ride not found''), demo_accepted)
   \<and> update_ride_status demo_accepted ''00000000'' COMPLETED 5
       = (Inl (ValueError ''Ride not found''), demo_accepted)
   \<and> cancel_ride demo_accepted ''00000000'' ''late''
       = (Inl (ValueError ''Ride not found''), demo_accepted)
   \<and> fst (cancel_ride demo_accepted ''00000000'' ''late'') = Inl (ValueError ''Ride not found'')
   \<and> snd (cancel_ride demo_accepted ''00000000'' ''late'') = demo_accepted"
proof -
  have keys0: "keys demo_accepted = {''3F2A9C1E''}"
    using demo_accepted_keys by (simp add: keys_def flip: set_map)
  then have absent: "''00000000'' \<notin> keys demo_accepted"
    by simp
  show ?thesis
    using unknown_ride_not_found [OF absent, of demo_draws 5 6 COMPLETED "''late''"
        "''00000000''" "ValueError ''Ride not found''" "ValueError ''Ride not found''"
        "ValueError ''Ride not found''"] absent
    by simp
qed

section \<open>Transitions\<close>

text \<open>
  C2, as the claim states it, fails on the code: \<open>update_ride_status\<close> and \<open>cancel_ride\<close>
  look the ride up and then write the requested status, whatever the current one. On the
  ride of \<open>demo_completed\<close>, whose status is COMPLETED, a request for SEARCHING succeeds
  and the stored status becomes SEARCHING; cancelling it succeeds too and the stored
  status becomes CANCELLED.
\<close>

theorem transition_out_of_completed_succeeds:
  "map_option status (rides_get demo_completed ''3F2A9C1E'') = Some COMPLETED
   \<and> \<not> isl (fst (update_ride_status demo_completed ''3F2A9C1E'' SEARCHING 32400000400))
   \<and> map_option status
        (rides_get (snd (update_ride_status demo_completed ''3F2A9C1E'' SEARCHING 32400000400))
           ''3F2A9C1E'') = Some SEARCHING
   \<and> \<not> isl (fst (cancel_ride demo_completed ''3F2A9C1E'' ''late''))
   \<and> map_option status
        (rides_get (snd (cancel_ride demo_completed ''3F2A9C1E'' ''late'')) ''3F2A9C1E'')
        = Some CANCELLED"
  by (simp add: update_ride_status_stored [OF demo_completed_get]
      cancel_ride_stored [OF demo_completed_get] demo_completed_get rides_get_update
      demo_completed_ride_fields Let_def)

text \<open>
  C2, amended. For every stored ride, every current status and every requested status,
  \<open>update_ride_status\<close> succeeds, along the edges of the lifecycle and along every other
  edge alike, and \<open>cancel_ride\<close> succeeds from every status: no transition is rejected.
  A successful \<open>update_ride_status\<close> returns the stored ride, whose status is the
  requested one, whose \<open>started_at\<close> is the clock reading when the request is IN_PROGRESS,
  whose \<open>completed_at\<close> is the clock reading when the request is COMPLETED, and whose
  other fields are as before; a successful \<open>cancel_ride\<close> sets the status to CANCELLED.
  Neither touches another ride. The only failure of either is "Ride not found", for an
  identifier that is not a key, and it leaves the service as it was.
\<close>

theorem every_transition_succeeds:
  assumes "rides_get s rid = Some r"
  shows "(\<exists>r'. fst (update_ride_status s rid st now) = Inr r'
            \<and> rides_get (snd (update_ride_status s rid st now)) rid = Some r'
            \<and> status r' = st
            \<and> started_at r' = (if st = IN_PROGRESS then Some now else started_at r)
            \<and> completed_at r' = (if st = COMPLETED then Some now else completed_at r)
            \<and> ride_id r' = ride_id r \<and> cab_type r' = cab_type r
            \<and> pickup r' = pickup r \<and> dropoff r' = dropoff r
            \<and> driver r' = driver r \<and> fare r' = fare r
            \<and> created_at r' = created_at r \<and> accepted_at r' = accepted_at r
            \<and> eta_minutes r' = eta_minutes r \<and> distance_km r' = distance_km r
            \<and> duration_minutes r' = duration_minutes r)
       \<and> (\<exists>res. fst (cancel_ride s rid reason) = Inr res \<and> res_status res = ''cancelled'')
       \<and> map_option status (rides_get (snd (cancel_ride s rid reason)) rid) = Some CANCELLED
       \<and> (\<forall>rid'. rid' \<noteq> rid \<longrightarrow>
             rides_get (snd (update_ride_status s rid st now)) rid' = rides_get s rid'
             \<and> rides_get (snd (cancel_ride s rid reason)) rid' = rides_get s rid')
       \<and> (fst (update_ride_status s rid0 st now) = Inl e \<longrightarrow>
             e = ValueError ''Ride not found'' \<and> rid0 \<notin> keys s
             \<and> snd (update_ride_status s rid0 st now) = s)
       \<and> (fst (cancel_ride s rid0 reason) = Inl e \<longrightarrow>
             e = ValueError ''Ride not found'' \<and> rid0 \<notin> keys s
             \<and> snd (cancel_ride s rid0 reason) = s)"
proof -
  have stored: "(\<exists>r'. fst (update_ride_status s rid st now) = Inr r'
            \<and> rides_get (snd (update_ride_status s rid st now)) rid = Some r'
            \<and> status r' = st
            \<and> started_at r' = (if st = IN_PROGRESS then Some now else started_at r)
            \<and> completed_at r' = (if st = COMPLETED then Some now else completed_at r)
            \<and> ride_id r' = ride_id r \<and> cab_type r' = cab_type r
            \<and> pickup r' = pickup r \<and> dropoff r' = dropoff r
            \<and> driver r' = driver r \<and> fare r' = fare r
            \<and> created_at r' = created_at r \<and> accepted_at r' = accepted_at r
            \<and> eta_minutes r' = eta_minutes r \<and> distance_km r' = distance_km r
            \<and> duration_minutes r' = duration_minutes r)
       \<and> (\<exists>res. fst (cancel_ride s rid reason) = Inr res \<and> res_status res = ''cancelled'')
       \<and> map_option status (rides_get (snd (cancel_ride s rid reason)) rid) = Some CANCELLED
       \<and> (\<forall>rid'. rid' \<noteq> rid \<longrightarrow>
             rides_get (snd (update_ride_status s rid st now)) rid' = rides_get s rid'
             \<and> rides_get (snd (cancel_ride s rid reason)) rid' = rides_get s rid')"
    by (simp add: update_ride_status_stored [OF assms] cancel_ride_stored [OF assms]
        rides_get_update Let_def)
  have upd: "fst (update_ride_status s rid0 st now) = Inl e \<longrightarrow>
             e = ValueError ''Ride not found'' \<and> rid0 \<notin> keys s
             \<and> snd (update_ride_status s rid0 st now) = s"
    by (cases "rides_get s rid0")
       (simp_all add: update_ride_status_unknown update_ride_status_stored Let_def
          rides_get_None_iff [symmetric])
  have can: "fst (cancel_ride s rid0 reason) = Inl e \<longrightarrow>
             e = ValueError ''Ride not found'' \<and> rid0 \<notin> keys s
             \<and> snd (cancel_ride s rid0 reason) = s"
    by (cases "rides_get s rid0")
       (simp_all add: cancel_ride_unknown cancel_ride_stored rides_get_None_iff [symmetric])
  show ?thesis
    using stored upd can by blast
qed

theorem every_transition_succeeds_witness:
  "rides_get demo_completed ''3F2A9C1E'' = Some demo_completed_ride
   \<and> status demo_completed_ride = COMPLETED
   \<and> \<not> isl (fst (update_ride_status demo_completed ''3F2A9C1E'' IN_PROGRESS 32400000400))
   \<and> map_option started_at
        (rides_get (snd (update_ride_status demo_completed ''3F2A9C1E'' IN_PROGRESS 32400000400))
           ''3F2A9C1E'') = Some (Some 32400000400)
   \<and> map_option status
        (rides_get (snd (update_ride_status demo_completed ''3F2A9C1E'' IN_PROGRESS 32400000400))
           ''3F2A9C1E'') = Some IN_PROGRESS
   \<and> rides_get (snd (update_ride_status demo_completed ''3F2A9C1E'' IN_PROGRESS 32400000400))
        ''7B00C0DE'' = None
   \<and> fst (update_ride_status demo_completed ''7B00C0DE'' IN_PROGRESS 32400000400)
        = Inl (ValueError ''Ride not found'')
   \<and> snd (update_ride_status demo_completed ''7B00C0DE'' IN_PROGRESS 32400000400)
        = demo_completed
   \<and> ''7B00C0DE'' \<notin> keys demo_completed"
proof -
  have other: "rides_get demo_completed ''7B00C0DE'' = None"
    by (simp add: rides_get_def demo_completed_rides)
  have fails: "fst (update_ride_status demo_completed ''7B00C0DE'' IN_PROGRESS 32400000400)
                 = Inl (ValueError ''Ride not found'')"
    by (simp add: update_ride_status_unknown [OF other])
  show ?thesis
    using every_transition_succeeds
        [OF demo_completed_get, of IN_PROGRESS 32400000400 "''late''" "''7B00C0DE''"
          "ValueError ''Ride not found''"]
      demo_completed_get demo_completed_ride_fields(1) other fails
    by auto
qed

text \<open>
  C3, as the claim states it, fails on the code: \<open>assign_driver\<close> does not look at the
  status. On the ride of \<open>demo_accepted\<close>, which already has a driver and
  \<open>accepted_at\<close>, a second call succeeds and replaces both.
\<close>

theorem second_assign_driver_succeeds:
  "map_option status (rides_get demo_accepted ''3F2A9C1E'') = Some ACCEPTED
   \<and> map_option accepted_at (rides_get demo_accepted ''3F2A9C1E'') = Some (Some 32400000100)
   \<and> map_option (map_option driver_id \<circ> driver) (rides_get demo_accepted ''3F2A9C1E'')
        = Some (Some ''0b1c2d3e'')
   \<and> \<not> isl (fst (assign_driver demo_accepted ''3F2A9C1E'' demo_draws_again 32400000200 7))
   \<and> map_option accepted_at
        (rides_get (snd (assign_driver demo_accepted ''3F2A9C1E'' demo_draws_again 32400000200 7))
           ''3F2A9C1E'') = Some (Some 32400000200)
   \<and> map_option (map_option driver_id \<circ> driver)
        (rides_get (snd (assign_driver demo_accepted ''3F2A9C1E'' demo_draws_again 32400000200 7))
           ''3F2A9C1E'') = Some (Some ''9f8e7d6c'')"
  by (simp add: assign_driver_stored [OF demo_accepted_get] demo_accepted_get rides_get_update
      driver_id_generate_random demo_draws_def demo_draws_again_def)

text \<open>
  C3, amended. \<open>assign_driver\<close> succeeds if and only if the identifier is a key of the
  registry, whatever the status of the ride. It returns the generated driver and stores
  it on the ride together with status ACCEPTED, \<open>accepted_at\<close> the clock reading and an
  ETA that is an integer from 3 to 10; the other fields are unchanged. A second call on
  the same ride succeeds as well and replaces the driver, \<open>accepted_at\<close> and the ETA of
  the first. The only failure is "Ride not found", which leaves the service as it was.
\<close>

theorem assign_driver_any_status:
  assumes "rides_get s rid = Some r"
  shows "fst (assign_driver s rid g now n) = Inr (generate_random (pickup r) g)
       \<and> (\<exists>r'. rides_get (snd (assign_driver s rid g now n)) rid = Some r'
             \<and> status r' = ACCEPTED
             \<and> driver r' = Some (generate_random (pickup r) g)
             \<and> accepted_at r' = Some now
             \<and> 3 \<le> eta_minutes r' \<and> eta_minutes r' \<le> 10
             \<and> ride_id r' = ride_id r \<and> cab_type r' = cab_type r
             \<and> pickup r' = pickup r \<and> dropoff r' = dropoff r \<and> fare r' = fare r
             \<and> created_at r' = created_at r \<and> started_at r' = started_at r
             \<and> completed_at r' = completed_at r \<and> distance_km r' = distance_km r
             \<and> duration_minutes r' = duration_minutes r)
       \<and> fst (assign_driver (snd (assign_driver s rid g now n)) rid g2 now2 n2)
           = Inr (generate_random (pickup r) g2)
       \<and> (\<exists>r''. rides_get
                   (snd (assign_driver (snd (assign_driver s rid g now n)) rid g2 now2 n2)) rid
                 = Some r''
             \<and> status r'' = ACCEPTED
             \<and> driver r'' = Some (generate_random (pickup r) g2)
             \<and> accepted_at r'' = Some now2
             \<and> 3 \<le> eta_minutes r'' \<and> eta_minutes r'' \<le> 10)
       \<and> ((\<exists>d. fst (assign_driver s rid0 g now n) = Inr d) \<longleftrightarrow> rid0 \<in> keys s)
       \<and> (fst (assign_driver s rid0 g now n) = Inl e \<longrightarrow>
             e = ValueError ''Ride not found'' \<and> rid0 \<notin> keys s
             \<and> snd (assign_driver s rid0 g now n) = s)"
proof -
  let ?r1 = "r\<lparr>driver := Some (generate_random (pickup r) g), status := ACCEPTED,
               accepted_at := Some now, eta_minutes := randint 3 10 n\<rparr>"
  let ?s1 = "s\<lparr>rides := AList.update rid ?r1 (rides s)\<rparr>"
  have first: "assign_driver s rid g now n = (Inr (generate_random (pickup r) g), ?s1)"
    by (rule assign_driver_stored [OF assms])
  have g1: "rides_get ?s1 rid = Some ?r1"
    by (simp add: rides_get_update)
  have second: "assign_driver ?s1 rid g2 now2 n2 =
      (Inr (generate_random (pickup ?r1) g2),
       ?s1\<lparr>rides := AList.update rid
              (?r1\<lparr>driver := Some (generate_random (pickup ?r1) g2), status := ACCEPTED,
                    accepted_at := Some now2, eta_minutes := randint 3 10 n2\<rparr>) (rides ?s1)\<rparr>)"
    by (rule assign_driver_stored [OF g1])
  have eta: "3 \<le> randint 3 10 n \<and> randint 3 10 n \<le> 10"
    by (rule randint_bounds) simp
  have eta2: "3 \<le> randint 3 10 n2 \<and> randint 3 10 n2 \<le> 10"
    by (rule randint_bounds) simp
  have iff: "(\<exists>d. fst (assign_driver s rid0 g now n) = Inr d) \<longleftrightarrow> rid0 \<in> keys s"
  proof (cases "rides_get s rid0")
    case None
    then show ?thesis
      using rides_get_None_iff [of s rid0] by (simp add: assign_driver_unknown)
  next
    case (Some r0)
    then show ?thesis
      using rides_get_Some_keys [OF Some] by (simp add: assign_driver_stored)
  qed
  have p1: "fst (assign_driver s rid g now n) = Inr (generate_random (pickup r) g)"
    by (simp add: first)
  have p2: "\<exists>r'. rides_get (snd (assign_driver s rid g now n)) rid = Some r'
             \<and> status r' = ACCEPTED
             \<and> driver r' = Some (generate_random (pickup r) g)
             \<and> accepted_at r' = Some now
             \<and> 3 \<le> eta_minutes r' \<and> eta_minutes r' \<le> 10
             \<and> ride_id r' = ride_id r \<and> cab_type r' = cab_type r
             \<and> pickup r' = pickup r \<and> dropoff r' = dropoff r \<and> fare r' = fare r
             \<and> created_at r' = created_at r \<and> started_at r' = started_at r
             \<and> completed_at r' = completed_at r \<and> distance_km r' = distance_km r
             \<and> duration_minutes r' = duration_minutes r"
    using eta by (simp add: first rides_get_update)
  have p3: "fst (assign_driver (snd (assign_driver s rid g now n)) rid g2 now2 n2)
           = Inr (generate_random (pickup r) g2)"
    unfolding first snd_conv second by simp
  have p4: "\<exists>r''. rides_get
                   (snd (assign_driver (snd (assign_driver s rid g now n)) rid g2 now2 n2)) rid
                 = Some r''
             \<and> status r'' = ACCEPTED
             \<and> driver r'' = Some (generate_random (pickup r) g2)
             \<and> accepted_at r'' = Some now2
             \<and> 3 \<le> eta_minutes r'' \<and> eta_minutes r'' \<le> 10"
    unfolding first snd_conv second using eta2 by (simp add: rides_get_update)
  have p5: "fst (assign_driver s rid0 g now n) = Inl e \<longrightarrow>
             e = ValueError ''Ride not found'' \<and> rid0 \<notin> keys s
             \<and> snd (assign_driver s rid0 g now n) = s"
    by (cases "rides_get s rid0")
       (simp_all add: assign_driver_unknown assign_driver_stored rides_get_None_iff [symmetric])
  show ?thesis
    using p1 p2 p3 p4 p5 iff by blast
qed

theorem assign_driver_any_status_witness:
  "rides_get demo_completed ''3F2A9C1E'' = Some demo_completed_ride
   \<and> status demo_completed_ride = COMPLETED
   \<and> \<not> isl (fst (assign_driver demo_completed ''3F2A9C1E'' demo_draws_again 32400000400 7))
   \<and> map_option status
        (rides_get (snd (assign_driver demo_completed ''3F2A9C1E'' demo_draws_again 32400000400 7))
           ''3F2A9C1E'') = Some ACCEPTED
   \<and> map_option accepted_at
        (rides_get (snd (assign_driver demo_completed ''3F2A9C1E'' demo_draws_again 32400000400 7))
           ''3F2A9C1E'') = Some (Some 32400000400)
   \<and> map_option eta_minutes
        (rides_get (snd (assign_driver demo_completed ''3F2A9C1E'' demo_draws_again 32400000400 7))
           ''3F2A9C1E'') = Some 10"
proof -
  have eta: "randint 3 10 7 = 10"
    by (simp add: randint_def)
  show ?thesis
    using assign_driver_any_status
        [OF demo_completed_get, of demo_draws_again 32400000400 7 demo_draws 32400000500 4
          "''3F2A9C1E''" "ValueError ''Ride not found''"]
      demo_completed_get demo_completed_ride_fields(1)
    by (auto simp: assign_driver_stored [OF demo_completed_get] rides_get_update eta)
qed

text \<open>
  C4, as the claim states it, fails on the code: nothing keeps an operation from running
  again or out of order. The ride of \<open>demo_completed\<close> went through the whole lifecycle
  and has \<open>started_at\<close> and \<open>completed_at\<close> set; a later request for IN_PROGRESS writes
  \<open>started_at\<close> a second time, and \<open>started_at\<close> is then later than \<open>completed_at\<close>.
\<close>

theorem started_at_written_twice_and_after_completed_at:
  "map_option started_at (rides_get demo_completed ''3F2A9C1E'') = Some (Some 32400000200)
   \<and> map_option completed_at (rides_get demo_completed ''3F2A9C1E'') = Some (Some 32400000300)
   \<and> map_option started_at
        (rides_get (snd (update_ride_status demo_completed ''3F2A9C1E'' IN_PROGRESS 32400000400))
           ''3F2A9C1E'') = Some (Some 32400000400)
   \<and> map_option completed_at
        (rides_get (snd (update_ride_status demo_completed ''3F2A9C1E'' IN_PROGRESS 32400000400))
           ''3F2A9C1E'') = Some (Some 32400000300)
   \<and> (32400000300 :: datetime) < 32400000400"
  by (simp add: update_ride_status_stored [OF demo_completed_get] demo_completed_get
      rides_get_update demo_completed_ride_fields Let_def)

text \<open>
  C4, amended. Over every sequence of operations on a stored ride (no booking that
  draws the ride's identifier again): \<open>accepted_at\<close> is written only by \<open>assign_driver\<close>,
  \<open>started_at\<close> only by \<open>update_ride_status\<close> to IN_PROGRESS and \<open>completed_at\<close> only
  by \<open>update_ride_status\<close> to COMPLETED, on that ride, and each of these calls stores its
  own clock reading, replacing a value written before. When the operations are those of
  the lifecycle, once each and in order, as \<open>simulate_ride\<close> issues them, and the clock
  does not run backwards, the timestamps are in order:
  \<open>created_at \<le> accepted_at \<le> started_at \<le> completed_at\<close>. The \<open>created_at\<close>,
  \<open>distance_km\<close> and \<open>duration_minutes\<close> that \<open>book_ride\<close> computes never change.
\<close>

theorem timestamps_written_by_their_operation:
  assumes stored: "rides_get s rid = Some r"
    and nobook: "booked_id x \<noteq> Some rid"
    and nobooks: "\<forall>y\<in>set xs. booked_id y \<noteq> Some rid"
    and clock: "created_at r \<le> t1" "t1 \<le> t2" "t2 \<le> t3"
  shows "(\<exists>r'. rides_get (step s x) rid = Some r'
            \<and> created_at r' = created_at r
            \<and> distance_km r' = distance_km r \<and> duration_minutes r' = duration_minutes r
            \<and> (accepted_at r' \<noteq> accepted_at r \<longrightarrow>
                 (\<exists>g now n. x = AssignDriver rid g now n \<and> accepted_at r' = Some now))
            \<and> (started_at r' \<noteq> started_at r \<longrightarrow>
                 (\<exists>now. x = UpdateRideStatus rid IN_PROGRESS now \<and> started_at r' = Some now))
            \<and> (completed_at r' \<noteq> completed_at r \<longrightarrow>
                 (\<exists>now. x = UpdateRideStatus rid COMPLETED now \<and> completed_at r' = Some now)))
       \<and> map_option accepted_at (rides_get (step s (AssignDriver rid g now n)) rid)
           = Some (Some now)
       \<and> map_option started_at (rides_get (step s (UpdateRideStatus rid IN_PROGRESS now)) rid)
           = Some (Some now)
       \<and> map_option completed_at (rides_get (step s (UpdateRideStatus rid COMPLETED now)) rid)
           = Some (Some now)
       \<and> (\<exists>r'. rides_get (run s xs) rid = Some r'
             \<and> created_at r' = created_at r
             \<and> distance_km r' = distance_km r \<and> duration_minutes r' = duration_minutes r)
       \<and> (\<exists>r'. rides_get (snd (simulate_ride s rid g n t1 t2 t3)) rid = Some r'
             \<and> status r' = COMPLETED
             \<and> created_at r' = created_at r
             \<and> accepted_at r' = Some t1 \<and> started_at r' = Some t2 \<and> completed_at r' = Some t3
             \<and> created_at r' \<le> t1 \<and> t1 \<le> t2 \<and> t2 \<le> t3
             \<and> distance_km r' = distance_km r \<and> duration_minutes r' = duration_minutes r)
       \<and> created_at (fst (book_ride s p q ct uid ts u tc)) = tc
       \<and> distance_km (fst (book_ride s p q ct uid ts u tc)) = PyRound (distance_to p q) 2
       \<and> duration_minutes (fst (book_ride s p q ct uid ts u tc))
           = PyInt (PyMul (PyDiv (distance_to p q) (IntLit 30)) (IntLit 60))"
proof -
  have one: "\<exists>r'. rides_get (step s x) rid = Some r'
            \<and> created_at r' = created_at r
            \<and> distance_km r' = distance_km r \<and> duration_minutes r' = duration_minutes r
            \<and> (accepted_at r' \<noteq> accepted_at r \<longrightarrow>
                 (\<exists>g now n. x = AssignDriver rid g now n \<and> accepted_at r' = Some now))
            \<and> (started_at r' \<noteq> started_at r \<longrightarrow>
                 (\<exists>now. x = UpdateRideStatus rid IN_PROGRESS now \<and> started_at r' = Some now))
            \<and> (completed_at r' \<noteq> completed_at r \<longrightarrow>
                 (\<exists>now. x = UpdateRideStatus rid COMPLETED now \<and> completed_at r' = Some now))"
    using step_ride_frame [OF stored nobook] by blast
  have w1: "map_option accepted_at (rides_get (step s (AssignDriver rid g now n)) rid)
              = Some (Some now)"
    by (simp add: assign_driver_stored [OF stored] rides_get_update)
  have w2: "map_option started_at (rides_get (step s (UpdateRideStatus rid IN_PROGRESS now)) rid)
              = Some (Some now)"
    by (simp add: update_ride_status_stored [OF stored] rides_get_update Let_def)
  have w3: "map_option completed_at (rides_get (step s (UpdateRideStatus rid COMPLETED now)) rid)
              = Some (Some now)"
    by (simp add: update_ride_status_stored [OF stored] rides_get_update Let_def)
  have many: "\<exists>r'. rides_get (run s xs) rid = Some r'
             \<and> created_at r' = created_at r
             \<and> distance_km r' = distance_km r \<and> duration_minutes r' = duration_minutes r"
    using run_ride_frame [OF stored nobooks] by blast
  have sim: "\<exists>r'. rides_get (snd (simulate_ride s rid g n t1 t2 t3)) rid = Some r'
             \<and> status r' = COMPLETED
             \<and> created_at r' = created_at r
             \<and> accepted_at r' = Some t1 \<and> started_at r' = Some t2 \<and> completed_at r' = Some t3
             \<and> created_at r' \<le> t1 \<and> t1 \<le> t2 \<and> t2 \<le> t3
             \<and> distance_km r' = distance_km r \<and> duration_minutes r' = duration_minutes r"
    using clock by (simp add: simulate_ride_stored [OF stored] rides_get_update)
  have booked: "created_at (fst (book_ride s p q ct uid ts u tc)) = tc
       \<and> distance_km (fst (book_ride s p q ct uid ts u tc)) = PyRound (distance_to p q) 2
       \<and> duration_minutes (fst (book_ride s p q ct uid ts u tc))
           = PyInt (PyMul (PyDiv (distance_to p q) (IntLit 30)) (IntLit 60))"
    by (simp add: book_ride_def Let_def)
  show ?thesis
    using one w1 w2 w3 many sim booked by blast
qed

theorem timestamps_written_by_their_operation_witness:
  "rides_get demo_booked ''3F2A9C1E'' = Some demo_ride
   \<and> created_at demo_ride = 32400000001
   \<and> map_option created_at
        (rides_get (step demo_booked (AssignDriver ''3F2A9C1E'' demo_draws 32400000100 4))
           ''3F2A9C1E'') = Some 32400000001
   \<and> map_option accepted_at
        (rides_get (step demo_booked (AssignDriver ''3F2A9C1E'' demo_draws 32400000100 4))
           ''3F2A9C1E'') = Some (Some 32400000100)
   \<and> map_option distance_km
        (rides_get
           (run demo_booked
              [AssignDriver ''3F2A9C1E'' demo_draws 32400000100 4,
               UpdateRideStatus ''3F2A9C1E'' IN_PROGRESS 32400000200,
               BookRide demo_dropoff demo_pickup MINI demo_uuid_other
                 64800000000 (FloatLit (1 / 4)) 64800000001,
               CancelRide ''3F2A9C1E'' ''late''])
           ''3F2A9C1E'') = Some (distance_km demo_ride)
   \<and> map_option completed_at
        (rides_get
           (snd (simulate_ride demo_booked ''3F2A9C1E'' demo_draws 4
                   32400000100 32400000200 32400000300))
           ''3F2A9C1E'') = Some (Some 32400000300)
   \<and> map_option started_at
        (rides_get
           (snd (simulate_ride demo_booked ''3F2A9C1E'' demo_draws 4
                   32400000100 32400000200 32400000300))
           ''3F2A9C1E'') = Some (Some 32400000200)"
proof -
  let ?x = "AssignDriver ''3F2A9C1E'' demo_draws 32400000100 4"
  let ?xs = "[AssignDriver ''3F2A9C1E'' demo_draws 32400000100 4,
              UpdateRideStatus ''3F2A9C1E'' IN_PROGRESS 32400000200,
              BookRide demo_dropoff demo_pickup MINI demo_uuid_other
                64800000000 (FloatLit (1 / 4)) 64800000001,
              CancelRide ''3F2A9C1E'' ''late'']"
  have nobook: "booked_id ?x \<noteq> Some ''3F2A9C1E''"
    by simp
  have nobooks: "\<forall>y\<in>set ?xs. booked_id y \<noteq> Some ''3F2A9C1E''"
    by (simp add: demo_rid_other)
  have c1: "created_at demo_ride \<le> 32400000100"
    and c2: "(32400000100 :: datetime) \<le> 32400000200"
    and c3: "(32400000200 :: datetime) \<le> 32400000300"
    by (simp_all add: demo_ride_fields)
  note inst = timestamps_written_by_their_operation
      [where g = demo_draws and now = 32400000100 and n = 4 and p = demo_pickup
         and q = demo_dropoff and ct = SEDAN and uid = demo_uuid and ts = 0 and u = "FloatLit 0"
         and tc = 0,
       OF demo_booked_get nobook nobooks c1 c2 c3]
  from inst obtain r1 where r1: "rides_get (step demo_booked ?x) ''3F2A9C1E'' = Some r1"
    "created_at r1 = created_at demo_ride"
    by blast
  from inst have a1: "map_option accepted_at (rides_get (step demo_booked ?x) ''3F2A9C1E'')
                        = Some (Some 32400000100)"
    by blast
  from inst obtain r2 where r2: "rides_get (run demo_booked ?xs) ''3F2A9C1E'' = Some r2"
    "distance_km r2 = distance_km demo_ride"
    by blast
  from inst obtain r3 where r3:
    "rides_get (snd (simulate_ride demo_booked ''3F2A9C1E'' demo_draws 4
                       32400000100 32400000200 32400000300)) ''3F2A9C1E'' = Some r3"
    "started_at r3 = Some 32400000200" "completed_at r3 = Some 32400000300"
    by blast
  show ?thesis
    using a1
    by (simp only: demo_booked_get demo_ride_fields r1 r2 r3 option.map option.inject simp_thms)
qed

section \<open>History\<close>

text \<open>
  C7. In a registry whose keys are distinct (as the keys of a dictionary are, and as they
  are in every state that a sequence of operations reaches from the empty service),
  \<open>get_ride_history\<close> returns exactly the stored rides whose status is COMPLETED: a ride
  is in the returned list if and only if it is stored under some identifier and its
  status is COMPLETED, and the list is the stored rides at the keys with a completed
  ride, in the order of the keys.
\<close>

theorem ride_history_iff_completed:
  assumes "distinct (map fst (rides s))"
  shows "(r \<in> set (get_ride_history s) \<longleftrightarrow>
            (\<exists>rid. get_ride s rid = Inr r) \<and> status r = COMPLETED)
       \<and> get_ride_history s =
           map (\<lambda>rid. the (rides_get s rid))
             (filter (\<lambda>rid. status (the (rides_get s rid)) = COMPLETED) (map fst (rides s)))
       \<and> (r \<in> set (get_ride_history (run init_service xs)) \<longleftrightarrow>
            (\<exists>rid. get_ride (run init_service xs) rid = Inr r) \<and> status r = COMPLETED)"
proof -
  have get: "\<And>t rid. get_ride t rid = Inr r \<longleftrightarrow> map_of (rides t) rid = Some r"
    by (auto simp: get_ride_def rides_get_def split: option.splits)
  have iff: "r \<in> set (get_ride_history t) \<longleftrightarrow>
                 (\<exists>rid. get_ride t rid = Inr r) \<and> status r = COMPLETED"
    if dist: "distinct (map fst (rides t))" for t
  proof -
    have "r \<in> set (get_ride_history t) \<longleftrightarrow> r \<in> set (map snd (rides t)) \<and> status r = COMPLETED"
      by (auto simp: get_ride_history_def)
    also have "r \<in> set (map snd (rides t)) \<longleftrightarrow> (\<exists>rid. get_ride t rid = Inr r)"
      by (simp only: values_iff_lookup [OF dist] get)
    finally show ?thesis .
  qed
  have lst: "get_ride_history s =
           map (\<lambda>rid. the (rides_get s rid))
             (filter (\<lambda>rid. status (the (rides_get s rid)) = COMPLETED) (map fst (rides s)))"
    unfolding get_ride_history_def rides_get_def
    by (rule values_by_keys [OF assms])
  show ?thesis
    using iff [OF assms] iff [OF distinct_reachable] lst by blast
qed

theorem ride_history_iff_completed_witness:
  "distinct (map fst (rides demo_two))
   \<and> get_ride demo_two ''3F2A9C1E'' = Inr demo_completed_ride
   \<and> status demo_completed_ride = COMPLETED
   \<and> demo_completed_ride \<in> set (get_ride_history demo_two)
   \<and> get_ride demo_two ''7B00C0DE'' = Inr demo_second_ride
   \<and> status demo_second_ride = SEARCHING
   \<and> demo_second_ride \<notin> set (get_ride_history demo_two)"
proof -
  have dist: "distinct (map fst (rides demo_two))"
    by (simp add: demo_two_rides)
  have g1: "get_ride demo_two ''3F2A9C1E'' = Inr demo_completed_ride"
    and g2: "get_ride demo_two ''7B00C0DE'' = Inr demo_second_ride"
    by (simp_all add: get_ride_def rides_get_def demo_two_rides)
  show ?thesis
    using ride_history_iff_completed [OF dist, of demo_completed_ride]
      ride_history_iff_completed [OF dist, of demo_second_ride]
      dist g1 g2 demo_completed_ride_fields(1) demo_second_ride_fields(1)
    by auto
qed

section \<open>The registry over sequences of operations\<close>

text \<open>
  C10, as the claim states it, fails on the code: the identifier is the first eight
  characters of a random UUID, and \<open>book_ride\<close> stores the new ride under it without
  looking whether it is in use. Booking with a UUID that has the first eight characters
  of \<open>demo_uuid\<close> adds no entry to \<open>demo_booked\<close>: the set of keys and the number of
  entries stay the same, and the ride stored before is replaced.
\<close>

theorem book_ride_same_prefix_replaces:
  "keys demo_booked = {''3F2A9C1E''}
   \<and> demo_uuid_same_prefix \<noteq> demo_uuid
   \<and> ride_id (fst (book_ride demo_booked demo_dropoff demo_pickup MINI demo_uuid_same_prefix
                     64800000000 (FloatLit (1 / 4)) 64800000001)) = ''3F2A9C1E''
   \<and> keys (snd (book_ride demo_booked demo_dropoff demo_pickup MINI demo_uuid_same_prefix
                  64800000000 (FloatLit (1 / 4)) 64800000001)) = keys demo_booked
   \<and> length (rides (snd (book_ride demo_booked demo_dropoff demo_pickup MINI
                           demo_uuid_same_prefix 64800000000 (FloatLit (1 / 4)) 64800000001)))
       = length (rides demo_booked)
   \<and> map_option cab_type (rides_get demo_booked ''3F2A9C1E'') = Some SEDAN
   \<and> map_option cab_type
        (rides_get (snd (book_ride demo_booked demo_dropoff demo_pickup MINI
                           demo_uuid_same_prefix 64800000000 (FloatLit (1 / 4)) 64800000001))
           ''3F2A9C1E'') = Some MINI"
proof -
  have ne: "demo_uuid_same_prefix \<noteq> demo_uuid"
    by (simp add: demo_uuid_same_prefix_def demo_uuid_def)
  have sedan: "cab_type demo_ride = SEDAN"
    by (simp add: demo_ride_def book_ride_def Let_def)
  have mini: "cab_type (fst (book_ride demo_booked demo_dropoff demo_pickup MINI
                               demo_uuid_same_prefix 64800000000 (FloatLit (1 / 4)) 64800000001)) = MINI"
    by (simp add: book_ride_def Let_def)
  show ?thesis
    unfolding book_ride_state book_ride_id demo_rid_same_prefix
    by (simp add: ne keys_def rides_get_def sedan mini demo_booked_rides)
qed

text \<open>
  C10, amended. The set of ride identifiers of the registry only grows. \<open>book_ride\<close>
  stores the ride it returns under the identifier it draws, so the keys afterwards are
  the keys before together with that identifier: exactly one entry is added, at the end,
  when the identifier is not yet a key, and otherwise the entry of that key is replaced
  and no entry is added. No other operation (\<open>get_ride\<close>, \<open>assign_driver\<close>,
  \<open>update_ride_status\<close>, \<open>cancel_ride\<close>, \<open>get_ride_history\<close>) adds, removes or reorders
  a key. Consequently, once \<open>book_ride\<close> has returned a ride, \<open>get_ride\<close> on its
  identifier succeeds after any subsequent sequence of operations.
\<close>

theorem registry_keys_only_grow:
  "ride_id (fst (book_ride s p q ct uid ts u tc)) = upper (take 8 uid)
   \<and> rides_get (snd (book_ride s p q ct uid ts u tc)) (upper (take 8 uid))
       = Some (fst (book_ride s p q ct uid ts u tc))
   \<and> keys (snd (book_ride s p q ct uid ts u tc)) = insert (upper (take 8 uid)) (keys s)
   \<and> (upper (take 8 uid) \<notin> keys s \<longrightarrow>
         rides (snd (book_ride s p q ct uid ts u tc))
           = rides s @ [(upper (take 8 uid), fst (book_ride s p q ct uid ts u tc))])
   \<and> (upper (take 8 uid) \<in> keys s \<longrightarrow>
         map fst (rides (snd (book_ride s p q ct uid ts u tc))) = map fst (rides s))
   \<and> (booked_id x = None \<longrightarrow> map fst (rides (step s x)) = map fst (rides s))
   \<and> keys s \<subseteq> keys (run s xs)
   \<and> (\<exists>r'. get_ride (run (snd (book_ride s p q ct uid ts u tc)) xs)
               (ride_id (fst (book_ride s p q ct uid ts u tc))) = Inr r')"
proof -
  let ?k = "upper (take 8 uid)"
  let ?r = "fst (book_ride s p q ct uid ts u tc)"
  let ?s' = "snd (book_ride s p q ct uid ts u tc)"
  have st: "?s' = s\<lparr>rides := AList.update ?k ?r (rides s)\<rparr>"
    by (rule book_ride_state)
  have p1: "ride_id ?r = ?k" by (rule book_ride_id)
  have p2: "rides_get ?s' ?k = Some ?r"
    by (simp add: st rides_get_update)
  have p3: "keys ?s' = insert ?k (keys s)"
    by (simp add: st keys_update)
  have p4: "?k \<notin> keys s \<longrightarrow> rides ?s' = rides s @ [(?k, ?r)]"
  proof
    assume "?k \<notin> keys s"
    then have "map_of (rides s) ?k = None"
      using rides_get_None_iff [of s ?k] by (simp add: rides_get_def)
    then show "rides ?s' = rides s @ [(?k, ?r)]"
      by (simp add: st update_absent)
  qed
  have p5: "?k \<in> keys s \<longrightarrow> map fst (rides ?s') = map fst (rides s)"
  proof
    assume "?k \<in> keys s"
    then obtain v0 where "map_of (rides s) ?k = Some v0"
      using rides_get_None_iff [of s ?k] by (auto simp: rides_get_def)
    then show "map fst (rides ?s') = map fst (rides s)"
      by (simp add: st update_present_keys)
  qed
  have p6: "booked_id x = None \<longrightarrow> map fst (rides (step s x)) = map fst (rides s)"
    by (simp add: key_order_step)
  have p7: "keys s \<subseteq> keys (run s xs)" by (rule keys_run)
  have "?k \<in> keys ?s'" by (simp add: p3)
  then have p8: "\<exists>r'. get_ride (run ?s' xs) (ride_id ?r) = Inr r'"
    unfolding p1 by (rule get_ride_after_run)
  show ?thesis
    using p1 p2 p3 p4 p5 p6 p7 p8 by blast
qed

theorem registry_keys_only_grow_witness:
  "upper (take 8 demo_uuid) \<notin> keys init_service
   \<and> rides demo_booked = [] @ [(''3F2A9C1E'', demo_ride)]
   \<and> keys demo_booked = {''3F2A9C1E''}
   \<and> booked_id (CancelRide ''3F2A9C1E'' ''late'') = None
   \<and> map fst (rides (step init_service (CancelRide ''3F2A9C1E'' ''late''))) = []
   \<and> \<not> isl (get_ride
               (run demo_booked
                  [AssignDriver ''3F2A9C1E'' demo_draws 32400000100 4,
                   CancelRide ''3F2A9C1E'' ''late'',
                   BookRide demo_dropoff demo_pickup MINI demo_uuid_other
                     64800000000 (FloatLit (1 / 4)) 64800000001,
                   GetRideHistory])
               ''3F2A9C1E'')"
proof -
  have fresh: "upper (take 8 demo_uuid) \<notin> keys init_service"
    by (simp add: init_service_keys)
  note inst = registry_keys_only_grow
        [of init_service demo_pickup demo_dropoff SEDAN demo_uuid 32400000000 "FloatLit (1 / 2)"
          32400000001 "CancelRide ''3F2A9C1E'' ''late''"
          "[AssignDriver ''3F2A9C1E'' demo_draws 32400000100 4,
            CancelRide ''3F2A9C1E'' ''late'',
            BookRide demo_dropoff demo_pickup MINI demo_uuid_other
              64800000000 (FloatLit (1 / 4)) 64800000001,
            GetRideHistory]",
         folded demo_booked_def demo_ride_def, unfolded demo_rid]
  from inst have k: "keys demo_booked = insert ''3F2A9C1E'' (keys init_service)"
    by blast
  from inst fresh [unfolded demo_rid]
  have app: "rides demo_booked = rides init_service @ [(''3F2A9C1E'', demo_ride)]"
    by blast
  from inst have ord: "map fst (rides (step init_service (CancelRide ''3F2A9C1E'' ''late'')))
                        = map fst (rides init_service)"
    by simp
  from inst obtain r' where
    "get_ride
       (run demo_booked
          [AssignDriver ''3F2A9C1E'' demo_draws 32400000100 4,
           CancelRide ''3F2A9C1E'' ''late'',
           BookRide demo_dropoff demo_pickup MINI demo_uuid_other
             64800000000 (FloatLit (1 / 4)) 64800000001,
           GetRideHistory])
       (ride_id demo_ride) = Inr r'"
    by blast
  then have got: "\<not> isl (get_ride
               (run demo_booked
                  [AssignDriver ''3F2A9C1E'' demo_draws 32400000100 4,
                   CancelRide ''3F2A9C1E'' ''late'',
                   BookRide demo_dropoff demo_pickup MINI demo_uuid_other
                     64800000000 (FloatLit (1 / 4)) 64800000001,
                   GetRideHistory])
               ''3F2A9C1E'')"
    by (simp only: demo_ride_fields sum.disc simp_thms)
  show ?thesis
    using fresh k app ord got
    by (simp add: keys_def init_service_def)
qed

end
